theory Spec2Isabelle
  imports Main
begin

section \<open>The KGTorrent pipeline controller\<close>

text \<open>
  The development embeds \<^verbatim>\<open>main\<close> and \<^verbatim>\<open>entry\<close> of
  \<^verbatim>\<open>src/KGTorrent/kgtorrent.py\<close>, from the banner printed after argument
  parsing down to the last line. The controller is straight-line code over external
  collaborators (store adapter, loader, preprocessor, downloader, console, file system),
  so a run is modelled as the list of effects it performs, in program order, together with
  its outcome: normal return, or the exception of the collaborator call that raised.
  What each collaborator call answers is read from a record, one field per call site.
\<close>

subsection \<open>Data model\<close>

text \<open>
  \<^verbatim>\<open>class Commands\<close>: argparse accepts exactly these three values
  (\<^verbatim>\<open>choices=[Commands.INIT, Commands.REFRESH, Commands.DOWNLOAD]\<close>) and leaves
  \<^verbatim>\<open>main\<close> before the banner on any other.
\<close>

datatype command = INIT | REFRESH | DOWNLOAD

text \<open>The parsed arguments \<^verbatim>\<open>args.command\<close>, \<^verbatim>\<open>args.strategy\<close>,
  \<^verbatim>\<open>args.matching\<close>.\<close>

record args =
  command :: command
  strategy :: string
  matching :: "string list"

text \<open>
  The module \<^verbatim>\<open>KGTorrent.config\<close> is not part of the source at hand; the values
  \<^verbatim>\<open>main\<close> reads from it are parameters. Values that are only passed on to a
  collaborator are opaque objects of type \<open>'o\<close>.
\<close>

record 'o config =
  db_username :: string
  db_password :: string
  db_host :: string
  db_port :: string
  db_name :: string
  nb_archive_path :: string
  constraints_file_path :: string
  meta_kaggle_path :: string
  nb_conf_languages :: 'o

datatype stream = Stdout | Stderr

text \<open>
  One constructor per effect of \<^verbatim>\<open>main\<close>, carrying the arguments the source
  passes. \<^verbatim>\<open>list(set(nb_identifiers) & set(args.matching))\<close> is a list without
  duplicates whose order the language leaves open, so \<open>DOWNLOADER_new\<close> carries the set
  of its elements.
\<close>

datatype 'o event =
    Print stream string
  | Print_obj 'o
  | Print_ids "string list"
  | DB_ENGINE_new string string string string string
  | Db_exists
  | Input string
  | Iterdir_next string
  | DataLoader_new string string
  | Get_tables_dict
  | Get_constraints_df
  | MK_PREPROCESSOR_new 'o 'o
  | Preprocess_mk
  | Create_new_db bool
  | Write_tables 'o
  | Set_foreign_keys 'o
  | Get_nb_identifiers 'o
  | DOWNLOADER_new "string set" string
  | Download_notebooks string
  | Sleep
  | Print_elapsed

datatype 'o error = Raised "'o event"

text \<open>
  The answers of the environment, one field per call site of \<^verbatim>\<open>main\<close>. A call
  that raises is \<open>False\<close> (for calls whose value is not used) or \<open>None\<close>.
  \<open>archive\<close> is the listing of \<^verbatim>\<open>config.nb_archive_path\<close>, \<open>None\<close> when the
  path cannot be listed.
\<close>

record 'o world =
  db_engine_ok :: bool
  db_exists :: "bool option"
  input_line :: "string option"
  archive :: "string list option"
  data_loader_ok :: bool
  tables_dict :: "'o option"
  constraints_df :: "'o option"
  mk_preprocessor_ok :: bool
  preprocess_mk :: "('o \<times> 'o) option"
  create_new_db_ok :: bool
  write_tables_ok :: bool
  constraints_df_again :: "'o option"
  set_foreign_keys_ok :: bool
  nb_identifiers :: "string list option"
  downloader_ok :: bool
  download_notebooks_ok :: bool

subsection \<open>Runs\<close>

type_synonym ('o, 'a) run = "'o event list \<times> ('o error + 'a)"

definition ret :: "'a \<Rightarrow> ('o, 'a) run" where
  "ret x = ([], Inr x)"

definition bnd :: "('o, 'a) run \<Rightarrow> ('a \<Rightarrow> ('o, 'b) run) \<Rightarrow> ('o, 'b) run" where
  "bnd m f =
     (case m of
        (tr, Inl e) \<Rightarrow> (tr, Inl e)
      | (tr, Inr x) \<Rightarrow> (case f x of (tr', r) \<Rightarrow> (tr @ tr', r)))"

definition emit :: "'o event \<Rightarrow> ('o, unit) run" where
  "emit ev = ([ev], Inr ())"

definition call :: "'o event \<Rightarrow> 'a option \<Rightarrow> ('o, 'a) run" where
  "call ev answer = ([ev], case answer of None \<Rightarrow> Inl (Raised ev) | Some v \<Rightarrow> Inr v)"

definition call_ok :: "'o event \<Rightarrow> bool \<Rightarrow> ('o, unit) run" where
  "call_ok ev ok = ([ev], if ok then Inr () else Inl (Raised ev))"

definition print_lines :: "stream \<Rightarrow> string list \<Rightarrow> ('o, unit) run" where
  "print_lines s ls = (map (Print s) ls, Inr ())"

subsection \<open>Strings\<close>

text \<open>
  \<^verbatim>\<open>str.lower\<close> on the code points below 256, which is what a \<^typ>\<open>char\<close> holds:
  the capital letters A to Z, and the capital letters of the Latin-1 block (192 to 222
  without the multiplication sign 215), move up by 32; every other code point stays.
\<close>

definition lower_char :: "char \<Rightarrow> char" where
  "lower_char c =
     (let n = (of_char c :: nat) in
      if 65 \<le> n \<and> n \<le> 90 then char_of (n + 32)
      else if 192 \<le> n \<and> n \<le> 222 \<and> n \<noteq> 215 then char_of (n + 32)
      else c)"

definition lower :: "string \<Rightarrow> string" where
  "lower s = map lower_char s"

text \<open>\<^verbatim>\<open>next(Path(config.nb_archive_path).iterdir(), None)\<close> on a listing.\<close>

definition first_entry :: "string list \<Rightarrow> string option" where
  "first_entry es = (case es of [] \<Rightarrow> None | e # _ \<Rightarrow> Some e)"

subsection \<open>The guard stage (lines 110 to 138)\<close>

text \<open>
  \<^verbatim>\<open>proceed\<close> starts as \<open>False\<close>; the three tests of the command are separate
  \<^verbatim>\<open>if\<close> statements, each handing \<^verbatim>\<open>proceed\<close> to the next.
\<close>

definition check_db :: "'o world \<Rightarrow> 'o config \<Rightarrow> command \<Rightarrow> ('o, bool) run" where
  "check_db w cfg cmd =
     (let proceed0 = False in
      bnd (call Db_exists (db_exists w)) (\<lambda>ex.
        if ex then
          bnd (if cmd = INIT then
                 bnd (print_lines Stderr
                        [''Database '' @ db_name cfg @ '' already exists. '',
                         ''Please, provide a name that is not already in use for the KGTorrent database.''])
                   (\<lambda>_. ret False)
               else ret proceed0) (\<lambda>proceed1.
          bnd (if cmd = REFRESH then
                 bnd (print_lines Stdout
                        [''Database '' @ db_name cfg
                           @ '' already exists. This operation will reinitialize the current database'',
                         ''and populate it with the provided MetaKaggle version.''])
                   (\<lambda>_.
                 bnd (call (Input (''Are you sure to re-initialize '' @ db_name cfg
                                     @ '' database? [yes]\<newline>''))
                        (input_line w)) (\<lambda>ans.
                 if lower ans = ''yes'' then ret True else ret False))
               else ret proceed1) (\<lambda>proceed2.
          bnd (if cmd = DOWNLOAD then
                 print_lines Stdout
                   [''Database '' @ db_name cfg
                      @ '' already exists. This operation will only download the notebooks.'']
               else ret ()) (\<lambda>_.
          ret proceed2)))
        else ret True))"

definition check_folder :: "'o world \<Rightarrow> 'o config \<Rightarrow> command \<Rightarrow> bool \<Rightarrow> ('o, bool) run" where
  "check_folder w cfg cmd proceed =
     bnd (call (Iterdir_next (nb_archive_path cfg)) (map_option first_entry (archive w))) (\<lambda>data.
       if data \<noteq> None \<and> (cmd = INIT \<or> cmd = DOWNLOAD) then
         bnd (print_lines Stderr
                [''Download folder '' @ nb_archive_path cfg @ '' is not empty.'',
                 ''Please, provide the path to an empty folder to store downloaded notebooks.''])
           (\<lambda>_. ret False)
       else ret proceed)"

definition guard :: "'o world \<Rightarrow> 'o config \<Rightarrow> command \<Rightarrow> ('o, bool) run" where
  "guard w cfg cmd = bnd (check_db w cfg cmd) (check_folder w cfg cmd)"

subsection \<open>The data preparation stage (lines 142 to 171)\<close>

definition data_preparation :: "'o world \<Rightarrow> 'o config \<Rightarrow> ('o, unit) run" where
  "data_preparation w cfg =
     bnd (print_lines Stdout
            [''********************'', ''*** LOADING DATA ***'', ''********************'']) (\<lambda>_.
     bnd (call_ok (DataLoader_new (constraints_file_path cfg) (meta_kaggle_path cfg))
            (data_loader_ok w)) (\<lambda>_.
     bnd (print_lines Stdout
            [''***********************************'',
             ''** TABLES PRE-PROCESSING STARTED **'',
             ''***********************************'']) (\<lambda>_.
     bnd (call Get_tables_dict (tables_dict w)) (\<lambda>tables.
     bnd (call Get_constraints_df (constraints_df w)) (\<lambda>constraints.
     bnd (call_ok (MK_PREPROCESSOR_new tables constraints) (mk_preprocessor_ok w)) (\<lambda>_.
     bnd (call Preprocess_mk (preprocess_mk w)) (\<lambda>(processed_dict, stats).
     bnd (print_lines Stdout
            [''*************'', ''*** STATS ***'', ''*************\<newline>'']) (\<lambda>_.
     bnd (emit (Print_obj stats)) (\<lambda>_.
     bnd (print_lines Stdout [''## Initializing DB...'']) (\<lambda>_.
     bnd (call_ok (Create_new_db True) (create_new_db_ok w)) (\<lambda>_.
     bnd (print_lines Stdout
            [''***************************'',
             ''** DB POPULATION STARTED **'',
             ''***************************'']) (\<lambda>_.
     bnd (call_ok (Write_tables processed_dict) (write_tables_ok w)) (\<lambda>_.
     bnd (print_lines Stdout [''** APPLICATION OF CONSTRAINTS **'']) (\<lambda>_.
     bnd (call Get_constraints_df (constraints_df_again w)) (\<lambda>constraints'.
     call_ok (Set_foreign_keys constraints') (set_foreign_keys_ok w))))))))))))))))"

subsection \<open>The notebook download stage (lines 175 to 199)\<close>

definition notebook_download :: "'o world \<Rightarrow> 'o config \<Rightarrow> args \<Rightarrow> ('o, unit) run" where
  "notebook_download w cfg a =
     bnd (print_lines Stdout [''** QUERYING KERNELS TO DOWNLOAD **'']) (\<lambda>_.
     bnd (call (Get_nb_identifiers (nb_conf_languages cfg)) (nb_identifiers w)) (\<lambda>ids.
     bnd (print_lines Stdout
            [''*******************'', ''*** Identifiers ***'', ''*******************\<newline>'']) (\<lambda>_.
     bnd (emit (Print_ids ids)) (\<lambda>_.
     bnd (print_lines Stdout
            [''*******************************'',
             ''** NOTEBOOK DOWNLOAD STARTED **'',
             ''*******************************'',
             ''# Selected strategy. '' @ strategy a]) (\<lambda>_.
     if \<not> (strategy a = ''SKIP'') then
       (let download_identifiers = set ids \<inter> set (matching a) in
        bnd (call_ok (DOWNLOADER_new download_identifiers (nb_archive_path cfg))
               (downloader_ok w)) (\<lambda>_.
        bnd (call_ok (Download_notebooks (strategy a)) (download_notebooks_ok w)) (\<lambda>_.
        print_lines Stdout [''## Download finished.''])))
     else print_lines Stdout [''## Download skipped.''])))))"

subsection \<open>The whole of main, and entry\<close>

text \<open>Lines 140 to 202: what runs once \<^verbatim>\<open>proceed\<close> is decided.\<close>

definition stages :: "'o world \<Rightarrow> 'o config \<Rightarrow> args \<Rightarrow> bool \<Rightarrow> ('o, unit) run" where
  "stages w cfg a proceed =
     bnd (if proceed \<and> command a \<noteq> DOWNLOAD then data_preparation w cfg else ret ()) (\<lambda>_.
     bnd (if proceed then notebook_download w cfg a else ret ()) (\<lambda>_.
     bnd (emit Sleep) (\<lambda>_.
     print_lines Stdout [''## KGTorrent end''])))"

text \<open>Lines 94 to 108, then the guard stage, then the stages.\<close>

definition main :: "'o world \<Rightarrow> 'o config \<Rightarrow> args \<Rightarrow> ('o, unit) run" where
  "main w cfg a =
     bnd (print_lines Stdout
            [''************************'', ''*** KGTORRENT STARTED***'', ''************************'',
             ''## Connecting to '' @ db_name cfg @ '' db on port '' @ db_port cfg
                @ '' as user '' @ db_username cfg]) (\<lambda>_.
     bnd (call_ok (DB_ENGINE_new (db_username cfg) (db_password cfg) (db_host cfg)
                     (db_port cfg) (db_name cfg))
            (db_engine_ok w)) (\<lambda>_.
     bnd (print_lines Stdout [''## Connection with database established.'']) (\<lambda>_.
     bnd (guard w cfg (command a)) (\<lambda>proceed.
     stages w cfg a proceed))))"

definition entry :: "'o world \<Rightarrow> 'o config \<Rightarrow> args \<Rightarrow> ('o, unit) run" where
  "entry w cfg a = bnd (main w cfg a) (\<lambda>_. emit Print_elapsed)"

text \<open>
  The status the interpreter leaves with: 0 when \<^verbatim>\<open>entry\<close> returns, and a
  status other than 0, written 1 here, when an exception reaches the top level. Only the
  difference between 0 and the rest is used below.
\<close>

definition exit_status :: "('o, unit) run \<Rightarrow> nat" where
  "exit_status r = (case snd r of Inl _ \<Rightarrow> 1 | Inr _ \<Rightarrow> 0)"

subsection \<open>Classes of effects\<close>

text \<open>The store adapter's recreate, write and constraint operations.\<close>

fun store_mutation :: "'o event \<Rightarrow> bool" where
  "store_mutation (Create_new_db _) = True"
| "store_mutation (Write_tables _) = True"
| "store_mutation (Set_foreign_keys _) = True"
| "store_mutation _ = False"

text \<open>Instantiation and invocation of the downloader.\<close>

fun fetch_strategy :: "'o event \<Rightarrow> bool" where
  "fetch_strategy (DOWNLOADER_new _ _) = True"
| "fetch_strategy (Download_notebooks _) = True"
| "fetch_strategy _ = False"

text \<open>Construction of the store adapter's connection.\<close>

fun connects :: "'o event \<Rightarrow> bool" where
  "connects (DB_ENGINE_new _ _ _ _ _) = True"
| "connects _ = False"

text \<open>The reads the guard stage decides on: the store's existence, the operator's answer,
  the first entry of the archive folder.\<close>

fun guard_check :: "'o event \<Rightarrow> bool" where
  "guard_check Db_exists = True"
| "guard_check (Input _) = True"
| "guard_check (Iterdir_next _) = True"
| "guard_check _ = False"

text \<open>The calls of lines 145 to 167 on the loader, the preprocessor and the store.\<close>

fun preparation_call :: "'o event \<Rightarrow> bool" where
  "preparation_call (DataLoader_new _ _) = True"
| "preparation_call Get_tables_dict = True"
| "preparation_call Get_constraints_df = True"
| "preparation_call (MK_PREPROCESSOR_new _ _) = True"
| "preparation_call Preprocess_mk = True"
| "preparation_call (Create_new_db _) = True"
| "preparation_call (Write_tables _) = True"
| "preparation_call (Set_foreign_keys _) = True"
| "preparation_call _ = False"

fun bulk_write :: "'o event \<Rightarrow> bool" where
  "bulk_write (Write_tables _) = True"
| "bulk_write _ = False"

fun constraint_application :: "'o event \<Rightarrow> bool" where
  "constraint_application (Set_foreign_keys _) = True"
| "constraint_application _ = False"

text \<open>The identifier query that opens the download stage.\<close>

fun identifier_query :: "'o event \<Rightarrow> bool" where
  "identifier_query (Get_nb_identifiers _) = True"
| "identifier_query _ = False"

subsection \<open>Concrete configurations and environments\<close>

definition cfg0 :: "string config" where
  "cfg0 = \<lparr>db_username = ''kgt'', db_password = ''secret'', db_host = ''localhost'',
     db_port = ''3306'', db_name = ''kgtorrent'', nb_archive_path = ''/data/notebooks'',
     constraints_file_path = ''/data/constraints.csv'', meta_kaggle_path = ''/data/meta-kaggle'',
     nb_conf_languages = ''languages''\<rparr>"

text \<open>Every collaborator answers; the store does not exist yet, the archive folder is
  empty, the store knows the notebooks a, b and c.\<close>

definition fresh_world :: "string world" where
  "fresh_world = \<lparr>db_engine_ok = True, db_exists = Some False, input_line = Some [],
     archive = Some [], data_loader_ok = True, tables_dict = Some ''tables'',
     constraints_df = Some ''constraints'', mk_preprocessor_ok = True,
     preprocess_mk = Some (''processed'', ''stats''), create_new_db_ok = True,
     write_tables_ok = True, constraints_df_again = Some ''constraints'',
     set_foreign_keys_ok = True, nb_identifiers = Some [''a'', ''b'', ''c''],
     downloader_ok = True, download_notebooks_ok = True\<rparr>"

text \<open>The same with the store already there.\<close>

definition populated_world :: "string world" where
  "populated_world = fresh_world\<lparr>db_exists := Some True\<rparr>"

subsection \<open>Effects and outcome of a composed run\<close>

lemma fst_bnd:
  "fst (bnd m f) = fst m @ (case snd m of Inl e \<Rightarrow> [] | Inr x \<Rightarrow> fst (f x))"
  by (cases m) (simp add: bnd_def split: sum.splits prod.splits)

lemma snd_bnd:
  "snd (bnd m f) = (case snd m of Inl e \<Rightarrow> Inl e | Inr x \<Rightarrow> snd (f x))"
  by (cases m) (simp add: bnd_def split: sum.splits prod.splits)

lemma run_ret: "fst (ret x) = []" "snd (ret x) = Inr x"
  by (simp_all add: ret_def)

lemma run_emit: "fst (emit ev) = [ev]" "snd (emit ev) = Inr ()"
  by (simp_all add: emit_def)

lemma run_call:
  "fst (call ev answer) = [ev]"
  "snd (call ev answer) = (case answer of None \<Rightarrow> Inl (Raised ev) | Some v \<Rightarrow> Inr v)"
  by (simp_all add: call_def)

lemma run_call_ok:
  "fst (call_ok ev ok) = [ev]"
  "snd (call_ok ev ok) = (if ok then Inr () else Inl (Raised ev))"
  by (simp_all add: call_ok_def)

lemma run_print_lines:
  "fst (print_lines s ls) = map (Print s) ls"
  "snd (print_lines s ls) = Inr ()"
  by (simp_all add: print_lines_def)

lemmas run_simps = fst_bnd snd_bnd run_ret run_emit run_call run_call_ok run_print_lines

subsection \<open>The guard stage, step by step\<close>

lemmas run_defs = bnd_def ret_def emit_def call_def call_ok_def print_lines_def

lemma check_db_unfold:
  "check_db w cfg cmd =
     (case db_exists w of
        None \<Rightarrow> ([Db_exists], Inl (Raised Db_exists))
      | Some False \<Rightarrow> ([Db_exists], Inr True)
      | Some True \<Rightarrow>
          (case cmd of
             INIT \<Rightarrow>
               ([Db_exists,
                 Print Stderr (''Database '' @ db_name cfg @ '' already exists. ''),
                 Print Stderr ''Please, provide a name that is not already in use for the KGTorrent database.''],
                Inr False)
           | REFRESH \<Rightarrow>
               ([Db_exists,
                 Print Stdout (''Database '' @ db_name cfg
                    @ '' already exists. This operation will reinitialize the current database''),
                 Print Stdout ''and populate it with the provided MetaKaggle version.'',
                 Input (''Are you sure to re-initialize '' @ db_name cfg @ '' database? [yes]\<newline>'')],
                case input_line w of
                  None \<Rightarrow> Inl (Raised (Input (''Are you sure to re-initialize '' @ db_name cfg
                                               @ '' database? [yes]\<newline>'')))
                | Some ans \<Rightarrow> Inr (lower ans = ''yes''))
           | DOWNLOAD \<Rightarrow>
               ([Db_exists,
                 Print Stdout (''Database '' @ db_name cfg
                    @ '' already exists. This operation will only download the notebooks.'')],
                Inr False)))"
  by (cases cmd; simp add: check_db_def Let_def run_defs split: option.splits bool.splits)

lemma check_folder_unfold:
  "check_folder w cfg cmd proceed =
     (case archive w of
        None \<Rightarrow> ([Iterdir_next (nb_archive_path cfg)], Inl (Raised (Iterdir_next (nb_archive_path cfg))))
      | Some es \<Rightarrow>
          (if es \<noteq> [] \<and> (cmd = INIT \<or> cmd = DOWNLOAD) then
             ([Iterdir_next (nb_archive_path cfg),
               Print Stderr (''Download folder '' @ nb_archive_path cfg @ '' is not empty.''),
               Print Stderr ''Please, provide the path to an empty folder to store downloaded notebooks.''],
              Inr False)
           else ([Iterdir_next (nb_archive_path cfg)], Inr proceed)))"
  by (simp add: check_folder_def first_entry_def run_defs split: option.splits list.splits)

lemma guard_quiet:
  "filter (\<lambda>ev. store_mutation ev \<or> fetch_strategy ev \<or> preparation_call ev
                \<or> identifier_query ev \<or> connects ev)
     (fst (guard w cfg cmd)) = []"
  by (cases cmd; simp add: guard_def fst_bnd check_db_unfold check_folder_unfold
      split: sum.splits option.splits bool.splits)

lemma guard_outcome:
  "snd (guard w cfg cmd) =
     (case snd (check_db w cfg cmd) of
        Inl e \<Rightarrow> Inl e
      | Inr proceed \<Rightarrow>
          (case archive w of
             None \<Rightarrow> Inl (Raised (Iterdir_next (nb_archive_path cfg)))
           | Some es \<Rightarrow> Inr (if es \<noteq> [] \<and> (cmd = INIT \<or> cmd = DOWNLOAD) then False else proceed)))"
  by (simp add: guard_def snd_bnd check_folder_unfold split: sum.splits option.splits)

subsection \<open>What each stage can do\<close>

lemma prep_no_fetch:
  "filter (\<lambda>ev. fetch_strategy ev \<or> identifier_query ev \<or> guard_check ev \<or> connects ev) (fst (data_preparation w cfg)) = []"
  by (simp add: data_preparation_def run_simps split: sum.splits option.splits prod.splits)

lemma download_no_prep:
  "filter (\<lambda>ev. preparation_call ev \<or> guard_check ev \<or> connects ev) (fst (notebook_download w cfg a)) = []"
  by (simp add: notebook_download_def Let_def run_simps split: sum.splits option.splits prod.splits)

subsection \<open>Lower-casing and the affirmative token\<close>

lemma of_char_lower_char:
  "(of_char (lower_char c) :: nat) =
     (if 65 \<le> (of_char c :: nat) \<and> (of_char c :: nat) \<le> 90 then of_char c + 32
      else if 192 \<le> (of_char c :: nat) \<and> (of_char c :: nat) \<le> 222 \<and> (of_char c :: nat) \<noteq> 215
      then of_char c + 32 else of_char c)"
  by (simp add: lower_char_def Let_def)

lemma lower_char_code:
  assumes "97 \<le> k" "k \<le> 122"
  shows "(of_char (lower_char c) :: nat) = k \<longleftrightarrow> (of_char c :: nat) = k \<or> (of_char c :: nat) + 32 = k"
  unfolding of_char_lower_char using assms by (cases "65 \<le> (of_char c :: nat) \<and> (of_char c :: nat) \<le> 90") (simp_all, arith+)

lemma lower_char_letter:
  assumes "97 \<le> (of_char l :: nat)" "(of_char l :: nat) \<le> 122"
    and "(of_char u :: nat) + 32 = of_char l"
  shows "lower_char c = l \<longleftrightarrow> c = l \<or> c = u"
proof -
  have "lower_char c = l \<longleftrightarrow> (of_char (lower_char c) :: nat) = of_char l"
    by simp
  also have "\<dots> \<longleftrightarrow> (of_char c :: nat) = of_char l \<or> (of_char c :: nat) + 32 = of_char l"
    using assms(1,2) by (rule lower_char_code)
  also have "\<dots> \<longleftrightarrow> (of_char c :: nat) = of_char l \<or> (of_char c :: nat) = of_char u"
    using assms(3) by arith
  finally show ?thesis by simp
qed

lemma lower_yes:
  "lower ans = ''yes'' \<longleftrightarrow>
     ans \<in> {''yes'', ''yeS'', ''yEs'', ''yES'', ''Yes'', ''YeS'', ''YEs'', ''YES''}"
proof -
  have y: "\<And>c. lower_char c = CHR ''y'' \<longleftrightarrow> c = CHR ''y'' \<or> c = CHR ''Y''"
    by (rule lower_char_letter) simp_all
  have e: "\<And>c. lower_char c = CHR ''e'' \<longleftrightarrow> c = CHR ''e'' \<or> c = CHR ''E''"
    by (rule lower_char_letter) simp_all
  have s: "\<And>c. lower_char c = CHR ''s'' \<longleftrightarrow> c = CHR ''s'' \<or> c = CHR ''S''"
    by (rule lower_char_letter) simp_all
  have "lower ans = ''yes'' \<longleftrightarrow>
      (\<exists>a b c. ans = [a, b, c] \<and> lower_char a = CHR ''y'' \<and> lower_char b = CHR ''e''
         \<and> lower_char c = CHR ''s'')"
    unfolding lower_def by (auto simp add: map_eq_Cons_conv)
  also have "\<dots> \<longleftrightarrow>
      (\<exists>a b c. ans = [a, b, c] \<and> (a = CHR ''y'' \<or> a = CHR ''Y'') \<and> (b = CHR ''e'' \<or> b = CHR ''E'')
         \<and> (c = CHR ''s'' \<or> c = CHR ''S''))"
    by (simp only: y e s)
  also have "\<dots> \<longleftrightarrow> ans \<in> {''yes'', ''yeS'', ''yEs'', ''yES'', ''Yes'', ''YeS'', ''YEs'', ''YES''}"
    by auto
  finally show ?thesis .
qed


subsection \<open>The run around the guard stage\<close>

lemma stages_abort: "stages w cfg a False = ([Sleep, Print Stdout ''## KGTorrent end''], Inr ())"
  by (simp add: stages_def run_defs)

lemma main_effects:
  "fst (main w cfg a) =
     map (Print Stdout)
       [''************************'', ''*** KGTORRENT STARTED***'', ''************************'',
        ''## Connecting to '' @ db_name cfg @ '' db on port '' @ db_port cfg
           @ '' as user '' @ db_username cfg]
     @ DB_ENGINE_new (db_username cfg) (db_password cfg) (db_host cfg) (db_port cfg) (db_name cfg)
     # (if db_engine_ok w then
          Print Stdout ''## Connection with database established.''
          # fst (guard w cfg (command a))
          @ (case snd (guard w cfg (command a)) of
               Inl e \<Rightarrow> []
             | Inr proceed \<Rightarrow> fst (stages w cfg a proceed))
        else [])"
  by (simp add: main_def run_simps)

lemma main_outcome:
  "snd (main w cfg a) =
     (if db_engine_ok w then
        (case snd (guard w cfg (command a)) of
           Inl e \<Rightarrow> Inl e
         | Inr proceed \<Rightarrow> snd (stages w cfg a proceed))
      else Inl (Raised (DB_ENGINE_new (db_username cfg) (db_password cfg) (db_host cfg)
                          (db_port cfg) (db_name cfg))))"
  by (simp add: main_def run_simps)

lemma guard_quiet_part:
  "filter (\<lambda>ev. store_mutation ev \<or> fetch_strategy ev \<or> preparation_call ev \<or> identifier_query ev)
     (fst (guard w cfg cmd)) = []"
  using guard_quiet [of w cfg cmd] by (simp add: filter_empty_conv)

lemma entry_outcome: "snd (entry w cfg a) = snd (main w cfg a)"
  by (simp add: entry_def run_simps split: sum.splits)

subsection \<open>Where the stages' calls can occur\<close>

lemma guard_no_fetch: "filter fetch_strategy (fst (guard w cfg cmd)) = []"
  using guard_quiet [of w cfg cmd] by (simp add: filter_empty_conv)

lemma prep_no_fetch_part: "filter fetch_strategy (fst (data_preparation w cfg)) = []"
  using prep_no_fetch [of w cfg] by (simp add: filter_empty_conv)

lemma download_fetch:
  assumes "nb_identifiers w = Some ids" and "strategy a \<noteq> ''SKIP''"
  shows "filter fetch_strategy (fst (notebook_download w cfg a)) =
     DOWNLOADER_new (set ids \<inter> set (matching a)) (nb_archive_path cfg)
     # (if downloader_ok w then [Download_notebooks (strategy a)] else [])"
  using assms by (simp add: notebook_download_def Let_def run_simps)

lemma guard_no_prep: "filter preparation_call (fst (guard w cfg cmd)) = []"
  using guard_quiet [of w cfg cmd] by (simp add: filter_empty_conv)

lemma download_no_prep_part: "filter preparation_call (fst (notebook_download w cfg a)) = []"
  using download_no_prep [of w cfg a] by (simp add: filter_empty_conv)

lemma preparation_calls_only: "bulk_write ev \<or> constraint_application ev \<Longrightarrow> preparation_call ev"
  by (cases ev) simp_all

lemma prep_write_then_constrain:
  "map constraint_application
     (filter (\<lambda>ev. bulk_write ev \<or> constraint_application ev) (fst (data_preparation w cfg)))
   \<in> {[], [False], [False, True]}"
  by (simp add: data_preparation_def run_simps split: sum.splits option.splits prod.splits)

lemma prep_calls:
  assumes "data_loader_ok w" and "tables_dict w = Some t" and "constraints_df w = Some c"
    and "mk_preprocessor_ok w" and "preprocess_mk w = Some (pd, st)" and "create_new_db_ok w"
    and "write_tables_ok w" and "constraints_df_again w = Some c'"
  shows "filter preparation_call (fst (data_preparation w cfg)) =
     [DataLoader_new (constraints_file_path cfg) (meta_kaggle_path cfg),
      Get_tables_dict, Get_constraints_df, MK_PREPROCESSOR_new t c, Preprocess_mk,
      Create_new_db True, Write_tables pd, Get_constraints_df, Set_foreign_keys c']"
  using assms by (simp add: data_preparation_def run_simps)

section \<open>Properties of the controller\<close>

text \<open>
  C1. Whenever the guard stage decides ABORT (\<^verbatim>\<open>proceed\<close> is \<open>False\<close> after line
  138), the run performs none of the store adapter's recreate, write and constraint
  operations and neither instantiates nor invokes the downloader; nor does it call the
  loader, the preprocessor or the identifier query.
\<close>

theorem abort_runs_no_stage:
  assumes "snd (guard w cfg (command a)) = Inr False"
  shows "filter (\<lambda>ev. store_mutation ev \<or> fetch_strategy ev \<or> preparation_call ev
                       \<or> identifier_query ev)
           (fst (main w cfg a)) = []"
  using assms by (simp add: main_effects stages_abort guard_quiet_part)

theorem abort_runs_no_stage_witness:
  "snd (guard populated_world cfg0 INIT) = Inr False
   \<and> filter (\<lambda>ev. store_mutation ev \<or> fetch_strategy ev \<or> preparation_call ev \<or> identifier_query ev)
        (fst (main populated_world cfg0 \<lparr>command = INIT, strategy = ''HTTP'', matching = [''a'']\<rparr>))
      = []"
proof -
  have h: "snd (guard populated_world cfg0
             (command \<lparr>command = INIT, strategy = ''HTTP'', matching = [''a'']\<rparr>)) = Inr False"
    by (simp add: guard_outcome check_db_unfold populated_world_def fresh_world_def)
  show ?thesis
    using h abort_runs_no_stage [OF h] by simp
qed

text \<open>
  C2. The claim is that DOWNLOAD on an existing store with an empty archive folder reaches
  the identifier query and the download. The run below is that situation: the store check
  prints that the operation will only download the notebooks, \<^verbatim>\<open>proceed\<close> keeps its
  initial value \<open>False\<close>, and the run ends without querying or downloading anything.
\<close>

theorem download_on_existing_store:
  "snd (guard populated_world cfg0 DOWNLOAD) = Inr False
   \<and> main populated_world cfg0 \<lparr>command = DOWNLOAD, strategy = ''HTTP'', matching = [''a'']\<rparr> =
       ([Print Stdout ''************************'',
         Print Stdout ''*** KGTORRENT STARTED***'',
         Print Stdout ''************************'',
         Print Stdout ''## Connecting to kgtorrent db on port 3306 as user kgt'',
         DB_ENGINE_new ''kgt'' ''secret'' ''localhost'' ''3306'' ''kgtorrent'',
         Print Stdout ''## Connection with database established.'',
         Db_exists,
         Print Stdout ''Database kgtorrent already exists. This operation will only download the notebooks.'',
         Iterdir_next ''/data/notebooks'',
         Sleep,
         Print Stdout ''## KGTorrent end''],
        Inr ())"
proof -
  have g: "guard populated_world cfg0 DOWNLOAD =
       ([Db_exists,
         Print Stdout ''Database kgtorrent already exists. This operation will only download the notebooks.'',
         Iterdir_next ''/data/notebooks''], Inr False)"
    by (simp add: guard_def bnd_def check_db_unfold check_folder_unfold
        populated_world_def fresh_world_def cfg0_def)
  show ?thesis
    by (simp add: prod_eq_iff main_effects main_outcome g stages_abort)
       (simp add: populated_world_def fresh_world_def cfg0_def)
qed

text \<open>
  C3, as claimed: a run whose guard stage decides ABORT ends with an error status. The run
  below (INIT on an existing store) decides ABORT and leaves with status 0.
\<close>

theorem abort_exit_status_counterexample:
  "db_engine_ok populated_world
   \<and> snd (guard populated_world cfg0 INIT) = Inr False
   \<and> exit_status (entry populated_world cfg0 \<lparr>command = INIT, strategy = ''HTTP'', matching = []\<rparr>) = 0"
  by (simp add: exit_status_def entry_outcome main_outcome guard_outcome check_db_unfold stages_abort
      populated_world_def fresh_world_def)

text \<open>
  C3, amended: a run whose guard stage decides ABORT returns normally from
  \<^verbatim>\<open>main\<close> and leaves with status 0, and so does a run that proceeds and whose
  stages complete.
\<close>

theorem abort_returns_normally:
  "(db_engine_ok w \<and> snd (guard w cfg (command a)) = Inr False \<longrightarrow>
      snd (main w cfg a) = Inr () \<and> exit_status (entry w cfg a) = 0)
   \<and> (db_engine_ok w \<and> snd (guard w cfg (command a)) = Inr True
        \<and> snd (stages w cfg a True) = Inr () \<longrightarrow>
      snd (main w cfg a) = Inr () \<and> exit_status (entry w cfg a) = 0)"
  by (simp add: exit_status_def entry_outcome main_outcome stages_abort)

theorem abort_returns_normally_witness:
  "db_engine_ok populated_world
   \<and> snd (guard populated_world cfg0 INIT) = Inr False
   \<and> snd (main populated_world cfg0 \<lparr>command = INIT, strategy = ''HTTP'', matching = []\<rparr>) = Inr ()
   \<and> exit_status (entry populated_world cfg0 \<lparr>command = INIT, strategy = ''HTTP'', matching = []\<rparr>) = 0
   \<and> db_engine_ok fresh_world
   \<and> snd (guard fresh_world cfg0 INIT) = Inr True
   \<and> snd (stages fresh_world cfg0 \<lparr>command = INIT, strategy = ''SKIP'', matching = []\<rparr> True) = Inr ()
   \<and> exit_status (entry fresh_world cfg0 \<lparr>command = INIT, strategy = ''SKIP'', matching = []\<rparr>) = 0"
proof -
  have c: "db_engine_ok populated_world"
    by (simp add: populated_world_def fresh_world_def)
  have g: "snd (guard populated_world cfg0 INIT) = Inr False"
    by (simp add: guard_outcome check_db_unfold populated_world_def fresh_world_def)
  have c': "db_engine_ok fresh_world"
    by (simp add: fresh_world_def)
  have g': "snd (guard fresh_world cfg0 INIT) = Inr True"
    by (simp add: guard_outcome check_db_unfold fresh_world_def)
  have p: "snd (data_preparation fresh_world cfg0) = Inr ()"
    by (simp add: data_preparation_def run_simps fresh_world_def)
  have d: "snd (notebook_download fresh_world cfg0
             \<lparr>command = INIT, strategy = ''SKIP'', matching = []\<rparr>) = Inr ()"
    by (simp add: notebook_download_def run_simps fresh_world_def)
  have s: "snd (stages fresh_world cfg0 \<lparr>command = INIT, strategy = ''SKIP'', matching = []\<rparr> True)
      = Inr ()"
    by (simp add: stages_def run_simps p d)
  show ?thesis
    using abort_returns_normally
      [of populated_world cfg0 "\<lparr>command = INIT, strategy = ''HTTP'', matching = []\<rparr>"]
      abort_returns_normally
      [of fresh_world cfg0 "\<lparr>command = INIT, strategy = ''SKIP'', matching = []\<rparr>"]
      c g c' g' s
    by simp
qed

text \<open>
  C4. In a run that proceeds, whose data preparation (if any) completes and whose
  identifier query returns the identifiers \<open>ids\<close>, with a strategy other than SKIP: the
  downloader is constructed exactly once, on the intersection of \<open>ids\<close> with the match
  filter, and then invoked once with the strategy (if the constructor returns). With an
  empty match filter that set is empty, and the downloader is still constructed and invoked.
\<close>

theorem dispatch_set_is_intersection:
  assumes "db_engine_ok w" and "snd (guard w cfg (command a)) = Inr True"
    and "command a = DOWNLOAD \<or> snd (data_preparation w cfg) = Inr ()"
    and "nb_identifiers w = Some ids" and "strategy a \<noteq> ''SKIP''"
  shows "filter fetch_strategy (fst (main w cfg a)) =
      DOWNLOADER_new (set ids \<inter> set (matching a)) (nb_archive_path cfg)
      # (if downloader_ok w then [Download_notebooks (strategy a)] else [])
    \<and> (matching a = [] \<longrightarrow>
         filter fetch_strategy (fst (main w cfg a)) =
           DOWNLOADER_new {} (nb_archive_path cfg)
           # (if downloader_ok w then [Download_notebooks (strategy a)] else []))"
proof -
  have s: "filter fetch_strategy (fst (stages w cfg a True)) =
      DOWNLOADER_new (set ids \<inter> set (matching a)) (nb_archive_path cfg)
      # (if downloader_ok w then [Download_notebooks (strategy a)] else [])"
    using assms(3) download_fetch [OF assms(4,5), of cfg]
    by (auto simp add: stages_def run_simps prep_no_fetch_part split: sum.splits)
  have "filter fetch_strategy (fst (main w cfg a)) =
      DOWNLOADER_new (set ids \<inter> set (matching a)) (nb_archive_path cfg)
      # (if downloader_ok w then [Download_notebooks (strategy a)] else [])"
    using assms(1,2) by (simp add: main_effects guard_no_fetch s)
  then show ?thesis by simp
qed

theorem dispatch_set_is_intersection_witness:
  "filter fetch_strategy
     (fst (main fresh_world cfg0 \<lparr>command = INIT, strategy = ''HTTP'', matching = [''b'', ''c'', ''d'']\<rparr>))
     = [DOWNLOADER_new {''b'', ''c''} ''/data/notebooks'', Download_notebooks ''HTTP'']
   \<and> filter fetch_strategy
     (fst (main fresh_world cfg0 \<lparr>command = INIT, strategy = ''API'', matching = []\<rparr>))
     = [DOWNLOADER_new {} ''/data/notebooks'', Download_notebooks ''API'']"
proof -
  have c: "db_engine_ok fresh_world"
    by (simp add: fresh_world_def)
  have g: "snd (guard fresh_world cfg0 cmd) = Inr True" for cmd
    by (simp add: guard_outcome check_db_unfold fresh_world_def)
  have p: "snd (data_preparation fresh_world cfg0) = Inr ()"
    by (simp add: data_preparation_def run_simps fresh_world_def)
  have i: "nb_identifiers fresh_world = Some [''a'', ''b'', ''c'']"
    by (simp add: fresh_world_def)
  have 1: "filter fetch_strategy
     (fst (main fresh_world cfg0 \<lparr>command = INIT, strategy = ''HTTP'', matching = [''b'', ''c'', ''d'']\<rparr>))
     = [DOWNLOADER_new {''b'', ''c''} ''/data/notebooks'', Download_notebooks ''HTTP'']"
    using dispatch_set_is_intersection
      [of fresh_world cfg0 "\<lparr>command = INIT, strategy = ''HTTP'', matching = [''b'', ''c'', ''d'']\<rparr>"
          "[''a'', ''b'', ''c'']"] c g p i
    by (simp add: fresh_world_def cfg0_def insert_commute)
  have 2: "filter fetch_strategy
     (fst (main fresh_world cfg0 \<lparr>command = INIT, strategy = ''API'', matching = []\<rparr>))
     = [DOWNLOADER_new {} ''/data/notebooks'', Download_notebooks ''API'']"
    using dispatch_set_is_intersection
      [of fresh_world cfg0 "\<lparr>command = INIT, strategy = ''API'', matching = []\<rparr>"
          "[''a'', ''b'', ''c'']"] c g p i
    by (simp add: fresh_world_def cfg0_def)
  from 1 2 show ?thesis by simp
qed

text \<open>
  C5. With the store present and the command REFRESH, the guard stage decides PROCEED
  exactly when the operator's answer, lower-cased, is \<^verbatim>\<open>yes\<close>, that is when it
  is one of the eight spellings of that word in upper and lower case; every other answer,
  the empty one included, decides ABORT. (The archive folder is assumed listable, since
  the guard stage reads it before its decision stands.)
\<close>

theorem refresh_confirmation:
  assumes "db_exists w = Some True" and "input_line w = Some ans" and "archive w = Some es"
  shows "snd (guard w cfg REFRESH) = Inr (lower ans = ''yes'')
    \<and> (lower ans = ''yes'') =
        (ans \<in> {''yes'', ''yeS'', ''yEs'', ''yES'', ''Yes'', ''YeS'', ''YEs'', ''YES''})"
  using assms by (simp add: guard_outcome check_db_unfold lower_yes)

theorem refresh_confirmation_witness:
  "snd (guard (populated_world\<lparr>input_line := Some ''YeS''\<rparr>) cfg0 REFRESH) = Inr True
   \<and> snd (guard (populated_world\<lparr>input_line := Some []\<rparr>) cfg0 REFRESH) = Inr False
   \<and> snd (guard (populated_world\<lparr>input_line := Some ''y''\<rparr>) cfg0 REFRESH) = Inr False"
  using refresh_confirmation [of "populated_world\<lparr>input_line := Some ''YeS''\<rparr>" "''YeS''" "[]" cfg0]
    refresh_confirmation [of "populated_world\<lparr>input_line := Some []\<rparr>" "[]" "[]" cfg0]
    refresh_confirmation [of "populated_world\<lparr>input_line := Some ''y''\<rparr>" "''y''" "[]" cfg0]
  by (simp add: populated_world_def fresh_world_def)

text \<open>
  C6. With at least one entry in the archive folder, INIT and DOWNLOAD decide ABORT whether
  the store exists or not; for REFRESH the guard stage behaves with a non-empty folder
  exactly as with an empty one.
\<close>

theorem nonempty_archive_decision:
  assumes "db_exists w = Some ex" and "archive w = Some (e # es)"
  shows "(cmd = INIT \<or> cmd = DOWNLOAD \<longrightarrow> snd (guard w cfg cmd) = Inr False)
    \<and> guard w cfg REFRESH = guard (w\<lparr>archive := Some []\<rparr>) cfg REFRESH"
proof -
  have 1: "cmd = INIT \<or> cmd = DOWNLOAD \<longrightarrow> snd (guard w cfg cmd) = Inr False"
    using assms by (cases ex) (auto simp add: guard_outcome check_db_unfold)
  have 2: "check_folder w cfg REFRESH = check_folder (w\<lparr>archive := Some []\<rparr>) cfg REFRESH"
    using assms(2) by (simp add: fun_eq_iff check_folder_unfold)
  have 3: "check_db w cfg REFRESH = check_db (w\<lparr>archive := Some []\<rparr>) cfg REFRESH"
    by (simp add: check_db_unfold split: option.splits bool.splits)
  from 1 2 3 show ?thesis by (simp add: guard_def)
qed

theorem nonempty_archive_decision_witness:
  "snd (guard (fresh_world\<lparr>archive := Some [''old.ipynb'']\<rparr>) cfg0 DOWNLOAD) = Inr False
   \<and> snd (guard (fresh_world\<lparr>archive := Some [''old.ipynb'']\<rparr>) cfg0 INIT) = Inr False
   \<and> snd (guard (fresh_world\<lparr>archive := Some [''old.ipynb'']\<rparr>) cfg0 REFRESH) = Inr True"
proof -
  have a: "archive (fresh_world\<lparr>archive := Some [''old.ipynb'']\<rparr>) = Some (''old.ipynb'' # [])"
    by simp
  have d: "db_exists (fresh_world\<lparr>archive := Some [''old.ipynb'']\<rparr>) = Some False"
    by (simp add: fresh_world_def)
  have e: "snd (guard (fresh_world\<lparr>archive := Some []\<rparr>) cfg0 REFRESH) = Inr True"
    by (simp add: guard_outcome check_db_unfold fresh_world_def)
  show ?thesis
    using nonempty_archive_decision [OF d a, of DOWNLOAD cfg0]
      nonempty_archive_decision [OF d a, of INIT cfg0] e
    by simp
qed

text \<open>
  C7, as claimed: after INIT on an existing store has decided ABORT, no further check runs.
  In the run below the archive folder is read after the two error lines.
\<close>

theorem init_on_existing_store_counterexample:
  "snd (check_db populated_world cfg0 INIT) = Inr False
   \<and> fst (guard populated_world cfg0 INIT) =
       [Db_exists,
        Print Stderr ''Database kgtorrent already exists. '',
        Print Stderr ''Please, provide a name that is not already in use for the KGTorrent database.'',
        Iterdir_next ''/data/notebooks'']"
  by (simp add: guard_def fst_bnd check_db_unfold check_folder_unfold
      populated_world_def fresh_world_def cfg0_def)

text \<open>
  C7, amended: with the store present and the command INIT, the store check decides ABORT
  and reports on the error stream; the archive folder is still read afterwards, and the
  decision of the guard stage is ABORT whenever that read returns (if it raises, the run
  ends with that error).
\<close>

theorem init_on_existing_store:
  assumes "db_exists w = Some True"
  shows "check_db w cfg INIT =
      ([Db_exists,
        Print Stderr (''Database '' @ db_name cfg @ '' already exists. ''),
        Print Stderr ''Please, provide a name that is not already in use for the KGTorrent database.''],
       Inr False)
    \<and> filter guard_check (fst (guard w cfg INIT)) = [Db_exists, Iterdir_next (nb_archive_path cfg)]
    \<and> snd (guard w cfg INIT) =
        (if archive w = None then Inl (Raised (Iterdir_next (nb_archive_path cfg))) else Inr False)"
  using assms
  by (simp add: guard_def fst_bnd snd_bnd check_db_unfold check_folder_unfold split: option.splits)

theorem init_on_existing_store_witness:
  "filter guard_check (fst (guard populated_world cfg0 INIT)) = [Db_exists, Iterdir_next ''/data/notebooks'']
   \<and> snd (guard populated_world cfg0 INIT) = Inr False"
proof -
  have h: "db_exists populated_world = Some True"
    by (simp add: populated_world_def)
  show ?thesis
    using init_on_existing_store [OF h, of cfg0]
    by (simp add: populated_world_def fresh_world_def cfg0_def)
qed

text \<open>
  C8. In a run with command INIT or REFRESH that proceeds: in any case the bulk write and
  the constraint application happen at most once each, the constraint application only
  after the bulk write; and when the calls up to the constraint application return, the
  calls on loader, preprocessor and store are exactly: construct the loader, read its
  tables and constraints, construct the preprocessor on them, run it, recreate the store
  with drop-if-exists, write the processed tables, read the constraints again, apply them.
\<close>

theorem preparation_sequence:
  assumes "db_engine_ok w" and "command a = INIT \<or> command a = REFRESH"
    and "snd (guard w cfg (command a)) = Inr True"
  shows "map constraint_application
       (filter (\<lambda>ev. bulk_write ev \<or> constraint_application ev) (fst (main w cfg a)))
       \<in> {[], [False], [False, True]}
    \<and> (data_loader_ok w \<and> tables_dict w = Some t \<and> constraints_df w = Some c
        \<and> mk_preprocessor_ok w \<and> preprocess_mk w = Some (pd, st) \<and> create_new_db_ok w
        \<and> write_tables_ok w \<and> constraints_df_again w = Some c' \<longrightarrow>
        filter preparation_call (fst (main w cfg a)) =
          [DataLoader_new (constraints_file_path cfg) (meta_kaggle_path cfg),
           Get_tables_dict, Get_constraints_df, MK_PREPROCESSOR_new t c, Preprocess_mk,
           Create_new_db True, Write_tables pd, Get_constraints_df, Set_foreign_keys c'])"
proof -
  have n: "command a \<noteq> DOWNLOAD"
    using assms(2) by auto
  have g: "filter (\<lambda>ev. bulk_write ev \<or> constraint_application ev) (fst (guard w cfg (command a))) = []"
    using guard_no_prep [of w cfg "command a"] preparation_calls_only
    by (auto simp add: filter_empty_conv)
  have d: "filter (\<lambda>ev. bulk_write ev \<or> constraint_application ev) (fst (notebook_download w cfg a)) = []"
    using download_no_prep_part [of w cfg a] preparation_calls_only
    by (auto simp add: filter_empty_conv)
  have s1: "filter (\<lambda>ev. bulk_write ev \<or> constraint_application ev) (fst (stages w cfg a True)) =
      filter (\<lambda>ev. bulk_write ev \<or> constraint_application ev) (fst (data_preparation w cfg))"
    using n by (simp add: stages_def run_simps d split: sum.splits)
  have 1: "map constraint_application
       (filter (\<lambda>ev. bulk_write ev \<or> constraint_application ev) (fst (main w cfg a)))
       \<in> {[], [False], [False, True]}"
    using assms(1,3) prep_write_then_constrain [of w cfg]
    by (simp add: main_effects g s1)
  have s2: "filter preparation_call (fst (stages w cfg a True)) =
      filter preparation_call (fst (data_preparation w cfg))"
    using n by (simp add: stages_def run_simps download_no_prep_part split: sum.splits)
  have 2: "filter preparation_call (fst (main w cfg a)) =
      filter preparation_call (fst (data_preparation w cfg))"
    using assms(1,3) by (simp add: main_effects guard_no_prep s2)
  from 1 2 show ?thesis
    by (auto simp add: prep_calls)
qed

theorem preparation_sequence_witness:
  "filter preparation_call
     (fst (main fresh_world cfg0 \<lparr>command = INIT, strategy = ''SKIP'', matching = []\<rparr>)) =
     [DataLoader_new ''/data/constraints.csv'' ''/data/meta-kaggle'',
      Get_tables_dict, Get_constraints_df, MK_PREPROCESSOR_new ''tables'' ''constraints'',
      Preprocess_mk, Create_new_db True, Write_tables ''processed'', Get_constraints_df,
      Set_foreign_keys ''constraints'']
   \<and> filter fetch_strategy
       (fst (main fresh_world cfg0 \<lparr>command = INIT, strategy = ''SKIP'', matching = []\<rparr>)) = []
   \<and> snd (main fresh_world cfg0 \<lparr>command = INIT, strategy = ''SKIP'', matching = []\<rparr>) = Inr ()"
proof -
  have c: "db_engine_ok fresh_world"
    by (simp add: fresh_world_def)
  have g: "snd (guard fresh_world cfg0
             (command \<lparr>command = INIT, strategy = ''SKIP'', matching = []\<rparr>)) = Inr True"
    by (simp add: guard_outcome check_db_unfold fresh_world_def)
  have k: "command \<lparr>command = INIT, strategy = ''SKIP'', matching = []\<rparr> = INIT
           \<or> command \<lparr>command = INIT, strategy = ''SKIP'', matching = []\<rparr> = REFRESH"
    by simp
  have 1: "filter preparation_call
     (fst (main fresh_world cfg0 \<lparr>command = INIT, strategy = ''SKIP'', matching = []\<rparr>)) =
     [DataLoader_new ''/data/constraints.csv'' ''/data/meta-kaggle'',
      Get_tables_dict, Get_constraints_df, MK_PREPROCESSOR_new ''tables'' ''constraints'',
      Preprocess_mk, Create_new_db True, Write_tables ''processed'', Get_constraints_df,
      Set_foreign_keys ''constraints'']"
    using preparation_sequence [OF c k g, of "''tables''" "''constraints''" "''processed''"
        "''stats''" "''constraints''"]
    by (simp add: fresh_world_def cfg0_def)
  have p: "snd (data_preparation fresh_world cfg0) = Inr ()"
    by (simp add: data_preparation_def run_simps fresh_world_def)
  have d: "notebook_download fresh_world cfg0 \<lparr>command = INIT, strategy = ''SKIP'', matching = []\<rparr> =
      (map (Print Stdout) [''** QUERYING KERNELS TO DOWNLOAD **'']
       @ [Get_nb_identifiers ''languages'']
       @ map (Print Stdout) [''*******************'', ''*** Identifiers ***'', ''*******************\<newline>'']
       @ [Print_ids [''a'', ''b'', ''c'']]
       @ map (Print Stdout)
           [''*******************************'', ''** NOTEBOOK DOWNLOAD STARTED **'',
            ''*******************************'', ''# Selected strategy. SKIP'',
            ''## Download skipped.''],
       Inr ())"
    by (simp add: notebook_download_def run_defs fresh_world_def cfg0_def)
  have 2: "filter fetch_strategy
       (fst (main fresh_world cfg0 \<lparr>command = INIT, strategy = ''SKIP'', matching = []\<rparr>)) = []"
    using c g p by (simp add: main_effects stages_def run_simps guard_no_fetch prep_no_fetch_part d)
  have 3: "snd (main fresh_world cfg0 \<lparr>command = INIT, strategy = ''SKIP'', matching = []\<rparr>) = Inr ()"
    using c g p by (simp add: main_outcome stages_def run_simps d)
  from 1 2 3 show ?thesis by simp
qed

text \<open>
  C9. Every run attempts the store connection exactly once, and no guard check comes before
  it; when the connection cannot be constructed no guard check runs at all and the run ends
  with that error.
\<close>

theorem connection_precedes_guard:
  "filter connects (fst (main w cfg a)) =
     [DB_ENGINE_new (db_username cfg) (db_password cfg) (db_host cfg) (db_port cfg) (db_name cfg)]
   \<and> filter guard_check (takeWhile (\<lambda>ev. \<not> connects ev) (fst (main w cfg a))) = []
   \<and> (\<not> db_engine_ok w \<longrightarrow>
        filter guard_check (fst (main w cfg a)) = []
        \<and> snd (main w cfg a) =
            Inl (Raised (DB_ENGINE_new (db_username cfg) (db_password cfg) (db_host cfg)
                           (db_port cfg) (db_name cfg))))"
proof -
  have g: "filter connects (fst (guard w cfg (command a))) = []"
    using guard_quiet [of w cfg "command a"] by (simp add: filter_empty_conv)
  have p: "filter connects (fst (data_preparation w cfg)) = []"
    using prep_no_fetch [of w cfg] by (simp add: filter_empty_conv)
  have d: "filter connects (fst (notebook_download w cfg a)) = []"
    using download_no_prep [of w cfg a] by (simp add: filter_empty_conv)
  have s: "filter connects (fst (stages w cfg a proceed)) = []" for proceed
    by (simp add: stages_def run_simps p d split: sum.splits)
  show ?thesis
    by (simp add: main_effects main_outcome g s split: sum.splits)
qed

theorem connection_precedes_guard_witness:
  "\<not> db_engine_ok (populated_world\<lparr>db_engine_ok := False\<rparr>)
   \<and> filter guard_check
        (fst (main (populated_world\<lparr>db_engine_ok := False\<rparr>) cfg0
                \<lparr>command = INIT, strategy = ''HTTP'', matching = []\<rparr>)) = []
   \<and> snd (main (populated_world\<lparr>db_engine_ok := False\<rparr>) cfg0
             \<lparr>command = INIT, strategy = ''HTTP'', matching = []\<rparr>) =
        Inl (Raised (DB_ENGINE_new ''kgt'' ''secret'' ''localhost'' ''3306'' ''kgtorrent''))"
  using connection_precedes_guard
    [of "populated_world\<lparr>db_engine_ok := False\<rparr>" cfg0
        "\<lparr>command = INIT, strategy = ''HTTP'', matching = []\<rparr>"]
  by (simp add: cfg0_def)

text \<open>The archive read belongs to every guard stage whose store check returns.\<close>

lemma archive_read_in_guard:
  assumes "db_exists w = Some ex" and "cmd = REFRESH \<Longrightarrow> ex \<Longrightarrow> input_line w \<noteq> None"
  shows "Iterdir_next (nb_archive_path cfg) \<in> set (fst (guard w cfg cmd))"
  using assms
  by (cases cmd; cases ex)
     (auto simp add: guard_def fst_bnd check_db_unfold check_folder_unfold split: option.splits)

text \<open>
  C10. For every command, REFRESH included, a run whose connection and store check
  succeed (and whose confirmation, if one is asked for, is answered) reads the first
  entry of the archive folder. If the folder cannot be listed, the guard stage and the
  run end with that error. For REFRESH the listing does not change the flag left by the
  store check; for INIT and DOWNLOAD on an absent store the flag is \<open>True\<close> exactly when
  the listing is empty.
\<close>

theorem archive_read_on_every_run:
  assumes "db_engine_ok w" and "db_exists w = Some ex"
    and "command a = REFRESH \<Longrightarrow> ex \<Longrightarrow> input_line w \<noteq> None"
  shows "Iterdir_next (nb_archive_path cfg) \<in> set (fst (main w cfg a))
    \<and> (archive w = None \<longrightarrow>
          snd (guard w cfg (command a)) = Inl (Raised (Iterdir_next (nb_archive_path cfg)))
          \<and> snd (main w cfg a) = Inl (Raised (Iterdir_next (nb_archive_path cfg))))
    \<and> (\<forall>es. command a = REFRESH \<longrightarrow> archive w = Some es \<longrightarrow>
          snd (guard w cfg (command a)) = snd (check_db w cfg (command a)))
    \<and> (\<forall>es. command a \<noteq> REFRESH \<longrightarrow> \<not> ex \<longrightarrow> archive w = Some es \<longrightarrow>
          snd (guard w cfg (command a)) = Inr (es = []))"
proof -
  have 1: "Iterdir_next (nb_archive_path cfg) \<in> set (fst (main w cfg a))"
    using assms(1) archive_read_in_guard [OF assms(2,3)] by (simp add: main_effects)
  have c: "\<exists>p. snd (check_db w cfg (command a)) = Inr p"
    using assms(2,3) by (cases "command a"; cases ex) (auto simp add: check_db_unfold)
  have 2: "archive w = None \<longrightarrow>
          snd (guard w cfg (command a)) = Inl (Raised (Iterdir_next (nb_archive_path cfg)))
          \<and> snd (main w cfg a) = Inl (Raised (Iterdir_next (nb_archive_path cfg)))"
    using assms(1) c by (auto simp add: main_outcome guard_outcome)
  have 3: "\<forall>es. command a = REFRESH \<longrightarrow> archive w = Some es \<longrightarrow>
          snd (guard w cfg (command a)) = snd (check_db w cfg (command a))"
    by (auto simp add: guard_outcome split: sum.splits)
  have 4: "\<forall>es. command a \<noteq> REFRESH \<longrightarrow> \<not> ex \<longrightarrow> archive w = Some es \<longrightarrow>
          snd (guard w cfg (command a)) = Inr (es = [])"
    using assms(2) by (cases "command a") (auto simp add: guard_outcome check_db_unfold)
  from 1 2 3 4 show ?thesis by blast
qed

theorem archive_read_on_every_run_witness:
  "Iterdir_next ''/data/notebooks''
     \<in> set (fst (main (populated_world\<lparr>input_line := Some ''yes'', archive := None\<rparr>) cfg0
                     \<lparr>command = REFRESH, strategy = ''HTTP'', matching = []\<rparr>))
   \<and> snd (main (populated_world\<lparr>input_line := Some ''yes'', archive := None\<rparr>) cfg0
             \<lparr>command = REFRESH, strategy = ''HTTP'', matching = []\<rparr>)
       = Inl (Raised (Iterdir_next ''/data/notebooks''))"
  using archive_read_on_every_run
    [of "populated_world\<lparr>input_line := Some ''yes'', archive := None\<rparr>" True
        "\<lparr>command = REFRESH, strategy = ''HTTP'', matching = []\<rparr>" cfg0]
  by (simp add: populated_world_def fresh_world_def cfg0_def)

end
